theory Spec2Isabelle
  imports Complex_Main "HOL-Library.Sublist"
begin

section \<open>JavaScript primitives used by the services\<close>

text \<open>
  JavaScript numbers are modelled as exact rationals: the scores, weights and caps of the
  services are small decimal quantities, and the rounding error of IEEE doubles is not
  part of the model. \<open>Math.round\<close> rounds to the nearest integer with ties towards
  \<open>+\<infinity>\<close>, that is \<open>floor (x + 1/2)\<close>.
\<close>

definition jsRound :: "rat \<Rightarrow> int" where
  "jsRound x = \<lfloor>x + 1 / 2\<rfloor>"


text \<open>
  Strings are lists of 8-bit characters. \<open>toLowerCase\<close> maps the letters A-Z to a-z and
  leaves every other character alone.
\<close>

definition lowerChar :: "char \<Rightarrow> char" where
  "lowerChar c =
     (let n = (of_char c :: nat) in if 65 \<le> n \<and> n \<le> 90 then char_of (n + 32) else c)"

definition toLowerCase :: "string \<Rightarrow> string" where
  "toLowerCase s = map lowerChar s"



text \<open>\<open>s.includes(t)\<close> (the name \<open>includes\<close> is reserved): \<open>t\<close> occurs in \<open>s\<close> as a contiguous substring.\<close>

fun str_includes :: "string \<Rightarrow> string \<Rightarrow> bool" where
  "str_includes [] t = (t = [])"
| "str_includes (c # cs) t = (prefix t (c # cs) \<or> str_includes cs t)"

text \<open>
  The white space class of \<open>\s\<close> and of \<open>trim\<close>, restricted to the 8-bit range:
  TAB, LF, VT, FF, CR, SPACE and NBSP.
\<close>

definition isSpace :: "char \<Rightarrow> bool" where
  "isSpace c = ((of_char c :: nat) \<in> {9, 10, 11, 12, 13, 32, 160})"

definition isDigit :: "char \<Rightarrow> bool" where
  "isDigit c = (48 \<le> (of_char c :: nat) \<and> (of_char c :: nat) \<le> 57)"

text \<open>
  \<open>s.split(sep)\<close> for a separator regular expression that matches the maximal non-empty
  runs of characters satisfying \<open>p\<close> (\<open>/\s+/\<close> and \<open>/[\s,]+/\<close>). A leading or trailing
  run leaves an empty string at that end, and the empty input gives one empty string.
\<close>

function splitRuns :: "(char \<Rightarrow> bool) \<Rightarrow> string \<Rightarrow> string \<Rightarrow> string list" where
  "splitRuns p cur [] = [cur]"
| "splitRuns p cur (c # cs) =
     (if p c then cur # splitRuns p [] (dropWhile p cs)
      else splitRuns p (cur @ [c]) cs)"
  by pat_completeness auto
termination
  by (relation "measure (\<lambda>(p, cur, s). length s)")
     (auto simp: le_imp_less_Suc length_dropWhile_le)

definition splitWhitespace :: "string \<Rightarrow> string list" where
  "splitWhitespace s = splitRuns isSpace [] s"

definition splitWhitespaceComma :: "string \<Rightarrow> string list" where
  "splitWhitespaceComma s = splitRuns (\<lambda>c. isSpace c \<or> c = CHR '','') [] s"

definition trim :: "string \<Rightarrow> string" where
  "trim s = rev (dropWhile isSpace (rev (dropWhile isSpace s)))"

text \<open>\<open>xs.indexOf(x)\<close>: the first position of \<open>x\<close>, or \<open>-1\<close>.\<close>

fun indexOf :: "string list \<Rightarrow> string \<Rightarrow> int" where
  "indexOf [] x = - 1"
| "indexOf (y # ys) x =
     (if y = x then 0 else (let r = indexOf ys x in if r = - 1 then - 1 else r + 1))"

section \<open>Data model (models/VisaType.ts)\<close>

record IScoringWeights =
  w_experience :: rat
  w_education :: rat
  w_specialization :: rat
  w_language :: rat
  w_documentQuality :: rat

record IEligibilityCriteria =
  minExperienceYears :: rat
  minEducationLevel :: string
  specializations :: "string list"
  languageRequirement :: string

record IVisaType =
  visaName :: string
  eligibilityCriteria :: IEligibilityCriteria
  scoringWeights :: IScoringWeights
  maxScoreCap :: rat
  officialLink :: string



datatype ScoreCategory = strong_candidate | moderate_fit | consider_alternatives | not_recommended

record ScoreBreakdown =
  experience :: rat
  education :: rat
  specialization :: rat
  language :: rat
  documentQuality :: rat

section \<open>Rule-based scorer (services/scoringService.ts)\<close>





definition lookupOr :: "(string \<times> rat) list \<Rightarrow> string \<Rightarrow> rat \<Rightarrow> rat" where
  "lookupOr table k d =
     (case map_of table k of None \<Rightarrow> d | Some v \<Rightarrow> (if v = 0 then d else v))"


text \<open>
  \<open>requiredSpecs\<close> is \<open>None\<close> for an absent (undefined or null) list. The exact match
  compares the lower-cased applicant string with the entries as they are stored; the
  partial match lower-cases the entries.
\<close>

definition calculateSpecializationScore :: "string \<Rightarrow> string list option \<Rightarrow> int" where
  "calculateSpecializationScore userSpec requiredSpecs =
     (case requiredSpecs of
        None \<Rightarrow> 80
      | Some reqs \<Rightarrow>
          if length reqs = 0 then 80
          else if toLowerCase userSpec \<in> set reqs then 100
          else
            (let userKeywords = splitWhitespaceComma (toLowerCase userSpec);
                 hasPartialMatch =
                   list_ex (\<lambda>req. list_ex (\<lambda>keyword. str_includes (toLowerCase req) keyword)
                                            userKeywords) reqs
             in if hasPartialMatch then 75 else 50))"

definition cefrLevels :: "string list" where
  "cefrLevels = [''a1'', ''a2'', ''b1'', ''b2'', ''c1'', ''c2'']"

definition calculateLanguageScore :: "string \<Rightarrow> string \<Rightarrow> int" where
  "calculateLanguageScore proficiency requirement =
     (let userLevel = indexOf cefrLevels (toLowerCase proficiency);
          requiredLevel = indexOf cefrLevels (toLowerCase requirement)
      in if userLevel = - 1 \<or> requiredLevel = - 1 then 60
         else if userLevel < requiredLevel then max 30 (60 - (requiredLevel - userLevel) * 10)
         else if userLevel = requiredLevel then 80
         else min 100 (80 + (userLevel - requiredLevel) * 5))"






text \<open>
  \<open>extractUserProfile\<close> reads the profile from the lower-cased summary. The two regular
  expressions are matched by hand. \<open>/(\d+)\+?\s*(years?|yrs?)/\<close>: at the leftmost digit
  from which the whole digit run, an optional plus sign and optional white space are
  followed by \<open>year\<close> or \<open>yr\<close>; a shorter run of digits cannot match, since it is followed
  by a digit. \<open>/([abc][12])/\<close>: the leftmost letter a, b or c followed by 1 or 2.
\<close>

definition parseInt :: "string \<Rightarrow> nat" where
  "parseInt ds = foldl (\<lambda>n d. 10 * n + ((of_char d :: nat) - 48)) 0 ds"

definition yearsSuffix :: "string \<Rightarrow> bool" where
  "yearsSuffix rest =
     (let r1 = (case rest of [] \<Rightarrow> [] | c # cs \<Rightarrow> if c = CHR ''+'' then cs else c # cs);
          r2 = dropWhile isSpace r1
      in prefix ''year'' r2 \<or> prefix ''yr'' r2)"

fun matchYears :: "string \<Rightarrow> string option" where
  "matchYears [] = None"
| "matchYears (c # cs) =
     (if isDigit c \<and> yearsSuffix (dropWhile isDigit (c # cs))
      then Some (takeWhile isDigit (c # cs))
      else matchYears cs)"

fun matchCefr :: "string \<Rightarrow> string option" where
  "matchCefr [] = None"
| "matchCefr [c] = None"
| "matchCefr (c # d # cs) =
     (if lowerChar c \<in> {CHR ''a'', CHR ''b'', CHR ''c''} \<and> d \<in> {CHR ''1'', CHR ''2''}
      then Some [c, d]
      else matchCefr (d # cs))"



section \<open>Document extractor (services/documentParsingService.ts)\<close>

text \<open>
  A thrown JavaScript value is an \<open>Error\<close> object with its message, or something else.
  \<open>messageOr e d\<close> is \<open>e instanceof Error ? e.message : d\<close>.
\<close>

datatype thrown = Error string | NonError

definition messageOr :: "thrown \<Rightarrow> string \<Rightarrow> string" where
  "messageOr e d = (case e of Error m \<Rightarrow> m | NonError \<Rightarrow> d)"

text \<open>
  The file system and the two extraction libraries are collaborators outside the
  repository: each either returns a text or throws.
\<close>

record Extractors =
  readFileSync :: "string \<Rightarrow> thrown + string"
  pdf :: "string \<Rightarrow> thrown + string"
  mammothExtractRawText :: "string \<Rightarrow> thrown + string"

text \<open>
  Node's \<open>path.extname\<close> (POSIX): the last segment of the path, from its last dot on;
  empty when the segment has no dot, has nothing before its last dot, or is \<open>..\<close>.
\<close>

definition lastSegment :: "string \<Rightarrow> string" where
  "lastSegment p =
     rev (takeWhile (\<lambda>c. c \<noteq> CHR ''/'') (dropWhile (\<lambda>c. c = CHR ''/'') (rev p)))"

definition extname :: "string \<Rightarrow> string" where
  "extname p =
     (let part = lastSegment p;
          ext = rev (takeWhile (\<lambda>c. c \<noteq> CHR ''.'') (rev part));
          stem = rev (drop 1 (dropWhile (\<lambda>c. c \<noteq> CHR ''.'') (rev part)))
      in if CHR ''.'' \<notin> set part \<or> stem = [] \<or> part = ''..'' then []
         else CHR ''.'' # ext)"

record ParsedDocument =
  fileName :: string
  documentType :: string
  extractedText :: string
  wordCount :: nat
  parseSuccess :: bool
  error :: "string option"

definition parsePDF :: "Extractors \<Rightarrow> string \<Rightarrow> thrown + string" where
  "parsePDF io filePath =
     (case readFileSync io filePath of
        Inl e \<Rightarrow> Inl (Error (''Failed to parse PDF: '' @ messageOr e ''Unknown error''))
      | Inr dataBuffer \<Rightarrow>
          (case pdf io dataBuffer of
             Inl e \<Rightarrow> Inl (Error (''Failed to parse PDF: '' @ messageOr e ''Unknown error''))
           | Inr t \<Rightarrow> Inr t))"

definition parseDOCX :: "Extractors \<Rightarrow> string \<Rightarrow> thrown + string" where
  "parseDOCX io filePath =
     (case mammothExtractRawText io filePath of
        Inl e \<Rightarrow> Inl (Error (''Failed to parse DOCX: '' @ messageOr e ''Unknown error''))
      | Inr t \<Rightarrow> Inr t)"

text \<open>
  \<open>parseDOC\<close> falls back to the raw bytes, every character outside \<open>\x20-\x7E\<close>, LF and CR
  replaced by a space.
\<close>

definition printableOrSpace :: "char \<Rightarrow> char" where
  "printableOrSpace c =
     (let n = (of_char c :: nat)
      in if (32 \<le> n \<and> n \<le> 126) \<or> n = 10 \<or> n = 13 then c else CHR '' '')"

definition parseDOC :: "Extractors \<Rightarrow> string \<Rightarrow> thrown + string" where
  "parseDOC io filePath =
     (case mammothExtractRawText io filePath of
        Inr t \<Rightarrow> Inr t
      | Inl e \<Rightarrow>
          (case readFileSync io filePath of
             Inr buffer \<Rightarrow> Inr (map printableOrSpace buffer)
           | Inl readError \<Rightarrow>
               Inl (Error (''Failed to parse DOC: '' @ messageOr e ''Unknown error''))))"

text \<open>
  The \<open>try\<close> block of \<open>parseDocument\<close>: the values of \<open>extractedText\<close>, \<open>parseSuccess\<close> and
  \<open>error\<close> at its end, or what was thrown. An extraction that throws does so before the
  assignment, so the variables still hold their initial values in the handler.
\<close>

definition parseAttempt ::
  "Extractors \<Rightarrow> string \<Rightarrow> string \<Rightarrow> thrown + (string \<times> bool \<times> string option)" where
  "parseAttempt io ext filePath =
     (if ext = ''.pdf'' then
        (case parsePDF io filePath of Inl e \<Rightarrow> Inl e | Inr t \<Rightarrow> Inr (t, True, None))
      else if ext = ''.docx'' then
        (case parseDOCX io filePath of Inl e \<Rightarrow> Inl e | Inr t \<Rightarrow> Inr (t, True, None))
      else if ext = ''.doc'' then
        (case parseDOC io filePath of Inl e \<Rightarrow> Inl e | Inr t \<Rightarrow> Inr (t, True, None))
      else if ext = ''.txt'' then
        (case readFileSync io filePath of Inl e \<Rightarrow> Inl e | Inr t \<Rightarrow> Inr (t, True, None))
      else if ext = ''.jpg'' \<or> ext = ''.jpeg'' \<or> ext = ''.png'' then
        Inr (''[Image file - OCR not implemented]'', False,
             Some ''Image file requires OCR for text extraction'')
      else Inr ([], False, Some (''Unsupported file type: '' @ ext)))"

definition countWords :: "string \<Rightarrow> nat" where
  "countWords t = length (filter (\<lambda>word. length word > 0) (splitWhitespace t))"

text \<open>
  \<open>parseDocument\<close> returns a sum like every function that may reject its promise; the
  handler turns whatever the \<open>try\<close> block throws into \<open>parseSuccess = false\<close>.
\<close>

definition parseDocument ::
  "Extractors \<Rightarrow> string \<Rightarrow> string \<Rightarrow> string \<Rightarrow> thrown + ParsedDocument" where
  "parseDocument io filePath name docType =
     (let ext = toLowerCase (extname name);
          (text, success, err) =
            (case parseAttempt io ext filePath of
               Inr r \<Rightarrow> r
             | Inl e \<Rightarrow> ([], False, Some (messageOr e ''Unknown parsing error'')))
      in Inr \<lparr> fileName = name, documentType = docType, extractedText = trim text,
               wordCount = countWords text, parseSuccess = success, error = err \<rparr>)"




text \<open>
  The number of maximal runs of characters that are not white space, counted in one pass:
  what "the non-empty white-space-separated tokens" of a text are, without a split.
\<close>

fun tokenCount :: "bool \<Rightarrow> string \<Rightarrow> nat" where
  "tokenCount inToken [] = 0"
| "tokenCount inToken (c # cs) =
     (if isSpace c then tokenCount False cs
      else (if inToken then 0 else 1) + tokenCount True cs)"

section \<open>Oracle client (services/aiAnalysisService.ts)\<close>

text \<open>
  The fields of the oracle's JSON answer that the scorer reads. The remaining fields
  (further evidence flags, notes) only feed the reasoning text and are left out.
\<close>

record O1ACriteriaAnalysis =
  criteriaName :: string
  evidenceFound :: "string list"
  evidenceQuality :: string
  c_score :: rat
  specificGaps :: "string list"

record AIProfileAnalysis =
  o1aCriteria :: "O1ACriteriaAnalysis list"
  criteriaMet :: rat
  yearsOfExperience :: rat
  educationLevel :: string
  fieldOfExpertise :: string
  languageProficiency :: string
  hasNationalInternationalRecognition :: bool
  hasOriginalContributions :: bool
  overallScore :: rat
  approvalLikelihood :: string
  ai_strengths :: "string list"
  criticalWeaknesses :: "string list"
  ai_nextSteps :: "string list"
  ai_documentQuality :: string



record PriorityAction =
  priority :: rat
  action :: string
  timeline :: string
  impact :: string

record DetailedRecommendations =
  priorityActions :: "PriorityAction list"
  longTermStrategy :: string
  resourceLinks :: "string list"

datatype RecommendationsJson = RecsNotJson string | RecsJson DetailedRecommendations












section \<open>Oracle-backed scorer (services/scoringServiceV2.ts)\<close>

record ScoreBreakdownV2 = ScoreBreakdown +
  o1aCriteriaMet :: "rat option"
  nationalRecognition :: "rat option"
  originalContributions :: "rat option"

record ScoringResultV2 =
  score2 :: int
  scoreBreakdown2 :: ScoreBreakdownV2
  scoreCategory2 :: ScoreCategory
  strengths :: "string list"
  improvements :: "string list"
  nextSteps :: "string list"
  aiAnalysis :: "AIProfileAnalysis option"
  detailedRecommendations :: "DetailedRecommendations option"

text \<open>
  \<open>calculateExperienceFromAI\<close>. The last quotient is \<open>-Infinity\<close> in JavaScript when
  \<open>minRequired\<close> is 0 (then \<open>years < -2\<close>), and \<open>Math.max(0, -Infinity)\<close> is 0.
\<close>

definition calculateExperienceFromAI :: "rat \<Rightarrow> rat \<Rightarrow> rat" where
  "calculateExperienceFromAI years minRequired =
     (if years \<ge> minRequired + 5 then 90
      else if years \<ge> minRequired + 3 then 80
      else if years \<ge> minRequired then 70
      else if years \<ge> minRequired - 1 then 50
      else if years \<ge> minRequired - 2 then 30
      else if minRequired = 0 then 0
      else max 0 (years / minRequired * 40))"

definition educationLevelsV2 :: "(string \<times> rat) list" where
  "educationLevelsV2 =
     [(''high_school'', 30), (''bachelor'', 60), (''master'', 80), (''phd'', 100)]"

definition calculateEducationFromAI :: "string \<Rightarrow> string \<Rightarrow> rat" where
  "calculateEducationFromAI level required =
     (let requiredScore = lookupOr educationLevelsV2 required 60;
          userScore = lookupOr educationLevelsV2 level 30
      in if userScore \<ge> requiredScore then userScore
         else userScore / requiredScore * 50)"

definition calculateSpecializationScoreV2 :: "string \<Rightarrow> string list \<Rightarrow> rat" where
  "calculateSpecializationScoreV2 field allowed =
     (let fieldLower = toLowerCase field
      in if list_ex (\<lambda>spec. fieldLower = toLowerCase spec) allowed then 100
         else if list_ex (\<lambda>spec. str_includes fieldLower (toLowerCase spec)
                                   \<or> str_includes (toLowerCase spec) fieldLower) allowed
              then 70
         else 40)"

definition calculateLanguageScoreV2 :: "string \<Rightarrow> string \<Rightarrow> rat" where
  "calculateLanguageScoreV2 level required =
     (let userIndex = indexOf cefrLevels (toLowerCase level);
          requiredIndex = indexOf cefrLevels (toLowerCase required)
      in if userIndex = - 1 \<or> requiredIndex = - 1 then 60
         else if userIndex \<ge> requiredIndex
              then of_int (70 + (userIndex - requiredIndex) * 10)
         else of_int (max 20 (60 - (requiredIndex - userIndex) * 15)))"

definition parsedCount :: "ParsedDocument list \<Rightarrow> nat" where
  "parsedCount documents = length (filter parseSuccess documents)"

definition calculateDocumentQualityFromAI :: "string \<Rightarrow> ParsedDocument list \<Rightarrow> rat" where
  "calculateDocumentQualityFromAI quality documents =
     (let baseScore =
            (if quality = ''excellent'' then 95
             else if quality = ''good'' then 75
             else if quality = ''fair'' then 50
             else if quality = ''poor'' then 25
             else 40);
          b1 = (if parsedCount documents \<ge> 5 then baseScore + 5 else baseScore);
          b2 = (if parsedCount documents \<ge> 8 then b1 + 5 else b1)
      in min 100 b2)"

text \<open>
  \<open>visaType.maxScoreCap ? Math.min(finalScore, visaType.maxScoreCap) : finalScore\<close>: the
  cap is applied when it is truthy, that is, not 0.
\<close>

definition applyCap :: "rat \<Rightarrow> IVisaType \<Rightarrow> rat" where
  "applyCap finalScore v =
     (if maxScoreCap v \<noteq> 0 then min finalScore (maxScoreCap v) else finalScore)"

definition weightedSumV2 :: "ScoreBreakdownV2 \<Rightarrow> IScoringWeights \<Rightarrow> rat" where
  "weightedSumV2 b w =
       experience b * w_experience w / 100
     + education b * w_education w / 100
     + specialization b * w_specialization w / 100
     + language b * w_language w / 100
     + documentQuality b * w_documentQuality w / 100"

text \<open>
  The profile that \<open>calculateBasicScore\<close> reads from the summary: years, education,
  specialization (the first allowed entry that occurs in the summary) and language level.
\<close>

definition basicExperience :: "string \<Rightarrow> nat" where
  "basicExperience summary = (case matchYears summary of None \<Rightarrow> 0 | Some ds \<Rightarrow> parseInt ds)"

definition basicEducation :: "string \<Rightarrow> string" where
  "basicEducation summary =
     (if str_includes summary ''phd'' then ''phd''
      else if str_includes summary ''master'' then ''master''
      else if str_includes summary ''bachelor'' then ''bachelor''
      else ''high_school'')"

definition basicSpecialization :: "string \<Rightarrow> string list \<Rightarrow> string" where
  "basicSpecialization summary specs =
     (case List.find (\<lambda>spec. str_includes summary (toLowerCase spec)) specs of
        None \<Rightarrow> ''general'' | Some spec \<Rightarrow> spec)"

definition basicLanguage :: "string \<Rightarrow> string" where
  "basicLanguage summary = (case matchCefr summary of None \<Rightarrow> ''b2'' | Some l \<Rightarrow> toLowerCase l)"

definition basicBreakdown :: "string \<Rightarrow> ParsedDocument list \<Rightarrow> IVisaType \<Rightarrow> ScoreBreakdownV2" where
  "basicBreakdown professionalSummary parsedDocuments v =
     (let summary = toLowerCase professionalSummary;
          crit = eligibilityCriteria v
      in \<lparr> experience = calculateExperienceFromAI (of_nat (basicExperience summary))
                           (minExperienceYears crit),
           education = calculateEducationFromAI (basicEducation summary) (minEducationLevel crit),
           specialization = calculateSpecializationScoreV2
                              (basicSpecialization summary (specializations crit))
                              (specializations crit),
           language = calculateLanguageScoreV2 (basicLanguage summary) (languageRequirement crit),
           documentQuality = (if parsedCount parsedDocuments \<ge> 3 then 70 else 40),
           o1aCriteriaMet = None, nationalRecognition = None, originalContributions = None \<rparr>)"

text \<open>
  \<open>calculateBasicScore\<close>: the category is read off the capped score before it is rounded.
  The reasoning text is left out.
\<close>

definition calculateBasicScore :: "string \<Rightarrow> ParsedDocument list \<Rightarrow> IVisaType \<Rightarrow> ScoringResultV2" where
  "calculateBasicScore professionalSummary parsedDocuments v =
     (let breakdown = basicBreakdown professionalSummary parsedDocuments v;
          finalScore = weightedSumV2 breakdown (scoringWeights v);
          cappedScore = applyCap finalScore v;
          category =
            (if cappedScore \<ge> 75 then strong_candidate
             else if cappedScore \<ge> 60 then moderate_fit
             else if cappedScore \<ge> 40 then consider_alternatives
             else not_recommended)
      in \<lparr> score2 = jsRound cappedScore, scoreBreakdown2 = breakdown,
           scoreCategory2 = category,
           strengths =
             [''Basic profile extraction - AI analysis recommended for detailed evaluation''],
           improvements = [''Upload detailed documentation for AI-powered analysis''],
           nextSteps = [''Visit official website: '' @ officialLink v],
           aiAnalysis = None, detailedRecommendations = None \<rparr>)"










section \<open>Sample data\<close>

text \<open>Two visa types of scripts/seedVisaTypes.ts.\<close>

definition o1aVisa :: IVisaType where
  "o1aVisa =
     \<lparr> visaName = ''O-1A Visa'',
       eligibilityCriteria =
         \<lparr> minExperienceYears = 5, minEducationLevel = ''bachelor'',
           specializations = [''science'', ''education'', ''business'', ''athletics'',
                              ''technology''],
           languageRequirement = ''b2'' \<rparr>,
       scoringWeights =
         \<lparr> w_experience = 30, w_education = 25, w_specialization = 20, w_language = 15,
           w_documentQuality = 10 \<rparr>,
       maxScoreCap = 85,
       officialLink = ''https://www.uscis.gov/working-in-the-united-states/temporary-workers/o-1-visa-individuals-with-extraordinary-ability-or-achievement'' \<rparr>"






text \<open>A file system on which every read fails.\<close>

definition noFiles :: Extractors where
  "noFiles =
     \<lparr> readFileSync = (\<lambda>path. Inl (Error ''ENOENT: no such file or directory'')),
       pdf = (\<lambda>buffer. Inl (Error ''Invalid PDF structure'')),
       mammothExtractRawText = (\<lambda>path. Inl NonError) \<rparr>"

text \<open>A file system on which every file holds the same short text.\<close>

definition textFiles :: Extractors where
  "textFiles =
     \<lparr> readFileSync = (\<lambda>path. Inr ''  Senior engineer, 10 years  ''),
       pdf = (\<lambda>buffer. Inr buffer),
       mammothExtractRawText = (\<lambda>path. Inr ''  Senior engineer, 10 years  '') \<rparr>"

section \<open>Properties of the scorers\<close>





subsection \<open>Specialization without requirements\<close>

text \<open>
  C10. When the allowed-specializations list of the visa type is empty or absent, the
  rule-based specialization scorer returns the fixed value 80, whatever the applicant's
  specialization string is.
\<close>

theorem calculateSpecializationScore_no_requirements:
  "requiredSpecs = None \<or> requiredSpecs = Some [] \<Longrightarrow>
   calculateSpecializationScore userSpec requiredSpecs = 80"
  by (auto simp: calculateSpecializationScore_def)

theorem calculateSpecializationScore_no_requirements_witness:
  "(Some [] = (None :: string list option) \<or> Some [] = (Some [] :: string list option)) \<and>
   calculateSpecializationScore ''maritime law'' (Some []) = 80"
  using calculateSpecializationScore_no_requirements [of "Some []" "''maritime law''"]
  by simp

lemma floor_divide_numeral_rat:
  "\<lfloor>(numeral a :: rat) / numeral b\<rfloor> = numeral a div numeral b"
  using floor_divide_of_int_eq [of "numeral a" "numeral b", where ?'a = rat] by simp



subsection \<open>Experience\<close>










subsection \<open>Language\<close>

lemma indexOf_nth_distinct:
  "distinct xs \<Longrightarrow> i < length xs \<Longrightarrow> indexOf xs (xs ! i) = int i"
proof (induction xs arbitrary: i)
  case Nil
  then show ?case by simp
next
  case (Cons x xs)
  show ?case
  proof (cases i)
    case 0
    then show ?thesis by simp
  next
    case (Suc k)
    with Cons.prems have "k < length xs" "distinct xs" "xs ! k \<noteq> x" by auto
    with Cons.IH [of k] Suc show ?thesis by (auto simp: Let_def)
  qed
qed

lemma cefr_index: "i < 6 \<Longrightarrow> indexOf cefrLevels (cefrLevels ! i) = int i"
  by (rule indexOf_nth_distinct) (simp_all add: cefrLevels_def)

lemma calculateLanguageScore_levels:
  assumes "i < 6" "j < 6" "toLowerCase u = cefrLevels ! i" "toLowerCase r = cefrLevels ! j"
  shows "calculateLanguageScore u r =
     (if i < j then max 30 (60 - 10 * (int j - int i))
      else if i = j then 80 else min 100 (80 + 5 * (int i - int j)))"
  using assms by (auto simp: calculateLanguageScore_def cefr_index Let_def)

lemma calculateLanguageScoreV2_levels:
  assumes "i < 6" "j < 6" "toLowerCase u = cefrLevels ! i" "toLowerCase r = cefrLevels ! j"
  shows "calculateLanguageScoreV2 u r =
     (if i < j then of_int (max 20 (60 - 15 * (int j - int i)))
      else of_int (70 + 10 * (int i - int j)))"
  using assms by (auto simp: calculateLanguageScoreV2_def cefr_index Let_def)

text \<open>
  C6, as the code has it. For CEFR levels \<open>i\<close> (applicant) and \<open>j\<close> (required), in any
  letter case: the rule-based language score is 80 for equal levels,
  \<open>min(100, 80 + 5 * gap)\<close> above the requirement and \<open>max(30, 60 - 10 * gap)\<close> below it.
  The language score of the second scorer is 70 for equal levels, \<open>70 + 10 * gap\<close> for a
  gap of up to three levels above the requirement, and \<open>max(20, 60 - 15 * gap)\<close> below it.
\<close>

theorem language_score_levels:
  assumes "i < 6" "j < 6" "toLowerCase u = cefrLevels ! i" "toLowerCase r = cefrLevels ! j"
  shows
    "(i = j \<longrightarrow> calculateLanguageScore u r = 80) \<and>
     (j < i \<longrightarrow> calculateLanguageScore u r = min 100 (80 + 5 * (int i - int j))) \<and>
     (i < j \<longrightarrow> calculateLanguageScore u r = max 30 (60 - 10 * (int j - int i))) \<and>
     (i = j \<longrightarrow> calculateLanguageScoreV2 u r = 70) \<and>
     (j < i \<and> i \<le> j + 3 \<longrightarrow>
        calculateLanguageScoreV2 u r = of_int (70 + 10 * (int i - int j))) \<and>
     (i < j \<longrightarrow> calculateLanguageScoreV2 u r = of_int (max 20 (60 - 15 * (int j - int i))))"
  using calculateLanguageScore_levels [OF assms] calculateLanguageScoreV2_levels [OF assms]
  by auto

theorem language_score_levels_witness:
  "calculateLanguageScore ''B1'' ''b1'' = 80 \<and> calculateLanguageScoreV2 ''B1'' ''b1'' = 70 \<and>
   calculateLanguageScore ''c2'' ''a1'' = 100 \<and> calculateLanguageScoreV2 ''c1'' ''b1'' = 90 \<and>
   calculateLanguageScore ''a1'' ''C1'' = 30 \<and> calculateLanguageScoreV2 ''a1'' ''C1'' = 20"
proof -
  have l0: "toLowerCase ''a1'' = cefrLevels ! 0" by code_simp
  have l2: "toLowerCase ''b1'' = cefrLevels ! 2" by code_simp
  have l2': "toLowerCase ''B1'' = cefrLevels ! 2" by code_simp
  have l4: "toLowerCase ''c1'' = cefrLevels ! 4" by code_simp
  have l4': "toLowerCase ''C1'' = cefrLevels ! 4" by code_simp
  have l5: "toLowerCase ''c2'' = cefrLevels ! 5" by code_simp
  show ?thesis
    using language_score_levels [OF _ _ l2' l2] language_score_levels [OF _ _ l5 l0]
      language_score_levels [OF _ _ l4 l2] language_score_levels [OF _ _ l0 l4']
    by simp
qed

theorem language_score_v2_counterexample:
  "calculateLanguageScoreV2 ''b1'' ''b1'' \<noteq> 80 \<and> \<not> calculateLanguageScoreV2 ''c2'' ''a1'' \<le> 100"
  by code_simp

subsection \<open>Specialization\<close>

text \<open>
  C8. An applicant specialization that equals an allowed entry up to letter case should
  score above a partial match. The rule-based scorer compares the lower-cased applicant
  string with the allowed entries as stored: against the allowed entry \<open>Technology\<close> the
  applicant string \<open>technology\<close> scores 75, the score of the partial match \<open>tech\<close>, where
  the second scorer gives 100.
\<close>

theorem specialization_exact_match_misses_case:
  "calculateSpecializationScore ''technology'' (Some [''Technology'']) = 75 \<and>
   calculateSpecializationScore ''tech'' (Some [''Technology'']) = 75 \<and>
   calculateSpecializationScore ''law'' (Some [''Technology'']) = 50 \<and>
   calculateSpecializationScoreV2 ''technology'' [''Technology''] = 100 \<and>
   calculateSpecializationScoreV2 ''tech'' [''Technology''] = 70"
  by code_simp


















lemma calculateDocumentQualityFromAI_nonneg: "0 \<le> calculateDocumentQualityFromAI q ds"
  by (simp add: calculateDocumentQualityFromAI_def Let_def)

















subsection \<open>Range of the final score\<close>




subsection \<open>The final score as a weighted sum\<close>




subsection \<open>Category\<close>



text \<open>
  \<open>calculateBasicScore\<close> reads the category off the capped score before rounding it: a
  capped score of 74.5 is reported as the final score 75 in the category moderate_fit.
\<close>

lemma calculateBasicScore_category_before_rounding:
  "score2 (calculateBasicScore ''Researcher with 4 years of experience, phd in technology, english b2'' [] o1aVisa) = 75 \<and>
   scoreCategory2 (calculateBasicScore ''Researcher with 4 years of experience, phd in technology, english b2'' [] o1aVisa) = moderate_fit"
  by code_simp




subsection \<open>Falling back when the oracle fails\<close>







section \<open>Properties of the document extractor\<close>

lemma tokenCount_dropWhile: "tokenCount False (dropWhile isSpace s) = tokenCount False s"
  by (induction s) auto

lemma tokenCount_append_spaces:
  "\<forall>c \<in> set t. isSpace c \<Longrightarrow> tokenCount b (s @ t) = tokenCount b s"
proof (induction s arbitrary: b)
  case Nil
  then show ?case by (induction t arbitrary: b) auto
next
  case (Cons c s)
  then show ?case by simp
qed

lemma splitRuns_count:
  "length (filter (\<lambda>word. length word > 0) (splitRuns isSpace cur s)) =
     (if cur = [] then tokenCount False s else 1 + tokenCount True s)"
proof (induction isSpace cur s rule: splitRuns.induct)
  case (1 cur)
  then show ?case by simp
next
  case (2 cur c cs)
  then show ?case by (auto simp: tokenCount_dropWhile)
qed

lemma countWords_tokenCount: "countWords t = tokenCount False t"
  using splitRuns_count [of "[]" t] by (simp add: countWords_def splitWhitespace_def)

lemma trim_decompose:
  "dropWhile isSpace s = trim s @ rev (takeWhile isSpace (rev (dropWhile isSpace s)))"
  unfolding trim_def by (metis rev_append rev_rev_ident takeWhile_dropWhile_id)

lemma tokenCount_trim: "tokenCount False (trim s) = tokenCount False s"
proof -
  have sp: "\<forall>c \<in> set (rev (takeWhile isSpace (rev (dropWhile isSpace s)))). isSpace c"
    by (auto dest: set_takeWhileD)
  have "tokenCount False s = tokenCount False (dropWhile isSpace s)"
    by (simp add: tokenCount_dropWhile)
  also have "\<dots> = tokenCount False (trim s @ rev (takeWhile isSpace (rev (dropWhile isSpace s))))"
    using trim_decompose [of s] by simp
  also have "\<dots> = tokenCount False (trim s)"
    using sp by (rule tokenCount_append_spaces)
  finally show ?thesis by simp
qed

lemma parseDocument_Inr:
  "parseDocument io p n k =
     Inr \<lparr> fileName = n, documentType = k,
           extractedText = trim (fst (case parseAttempt io (toLowerCase (extname n)) p of
               Inr r \<Rightarrow> r | Inl e \<Rightarrow> ([], False, Some (messageOr e ''Unknown parsing error'')))),
           wordCount = countWords (fst (case parseAttempt io (toLowerCase (extname n)) p of
               Inr r \<Rightarrow> r | Inl e \<Rightarrow> ([], False, Some (messageOr e ''Unknown parsing error'')))),
           parseSuccess = fst (snd (case parseAttempt io (toLowerCase (extname n)) p of
               Inr r \<Rightarrow> r | Inl e \<Rightarrow> ([], False, Some (messageOr e ''Unknown parsing error'')))),
           error = snd (snd (case parseAttempt io (toLowerCase (extname n)) p of
               Inr r \<Rightarrow> r | Inl e \<Rightarrow> ([], False, Some (messageOr e ''Unknown parsing error'')))) \<rparr>"
  by (simp add: parseDocument_def Let_def split: prod.split)

lemma parseAttempt_cases:
  "(\<exists>e. parseAttempt io ext p = Inl e) \<or>
   (\<exists>t. parseAttempt io ext p = Inr (t, True, None) \<and> ext \<in> {''.pdf'', ''.docx'', ''.doc'', ''.txt''}) \<or>
   (parseAttempt io ext p = Inr (''[Image file - OCR not implemented]'', False,
             Some ''Image file requires OCR for text extraction'') \<and> ext \<in> {''.jpg'', ''.jpeg'', ''.png''}) \<or>
   (parseAttempt io ext p = Inr ([], False, Some (''Unsupported file type: '' @ ext)) \<and>
      ext \<notin> {''.pdf'', ''.docx'', ''.doc'', ''.txt'', ''.jpg'', ''.jpeg'', ''.png''})"
  by (auto simp: parseAttempt_def split: sum.split)

lemma parseAttempt_image:
  "ext \<in> {''.jpg'', ''.jpeg'', ''.png''} \<Longrightarrow>
   parseAttempt io ext p = Inr (''[Image file - OCR not implemented]'', False,
             Some ''Image file requires OCR for text extraction'')"
  by (auto simp: parseAttempt_def)


lemma placeholder_words: "countWords ''[Image file - OCR not implemented]'' = 6"
  by code_simp


lemma ext_png: "toLowerCase (extname ''photo.PNG'') = ''.png''" by code_simp
lemma ext_xyz: "toLowerCase (extname ''notes.xyz'') = ''.xyz''" by code_simp



text \<open>
  C9, as the code has it. The word count of every ParsedDocument is the number of
  non-empty white-space-separated tokens of its extracted text. It is zero, and the text
  empty, when the extraction threw or the file type is unsupported. For an image file
  the extracted text is a fixed placeholder: \<open>parseSuccess\<close> is false and the word count
  is that of the placeholder, 6.
\<close>

theorem wordCount_tokens:
  assumes "parseDocument io p n k = Inr d"
  shows "wordCount d = tokenCount False (extractedText d) \<and>
    (\<not> parseSuccess d \<and> toLowerCase (extname n) \<notin> {''.jpg'', ''.jpeg'', ''.png''} \<longrightarrow>
       wordCount d = 0 \<and> extractedText d = []) \<and>
    (toLowerCase (extname n) \<in> {''.jpg'', ''.jpeg'', ''.png''} \<longrightarrow>
       \<not> parseSuccess d \<and> wordCount d = 6)"
proof -
  let ?r = "case parseAttempt io (toLowerCase (extname n)) p of
               Inr r \<Rightarrow> r | Inl e \<Rightarrow> ([], False, Some (messageOr e ''Unknown parsing error''))"
  from assms have d: "extractedText d = trim (fst ?r)" "wordCount d = countWords (fst ?r)"
    "parseSuccess d = fst (snd ?r)"
    by (auto simp: parseDocument_Inr)
  have 1: "wordCount d = tokenCount False (extractedText d)"
    by (simp add: d countWords_tokenCount tokenCount_trim)
  have e: "countWords [] = 0" "trim [] = []" by (simp_all add: countWords_tokenCount trim_def)
  have 2: "\<not> parseSuccess d \<and> toLowerCase (extname n) \<notin> {''.jpg'', ''.jpeg'', ''.png''} \<longrightarrow>
       wordCount d = 0 \<and> extractedText d = []"
    using parseAttempt_cases [of io "toLowerCase (extname n)" p]
    by (auto simp: d e)
  have 3: "toLowerCase (extname n) \<in> {''.jpg'', ''.jpeg'', ''.png''} \<longrightarrow>
       \<not> parseSuccess d \<and> wordCount d = 6"
    using parseAttempt_image [of "toLowerCase (extname n)" io p]
    by (auto simp: d placeholder_words)
  from 1 2 3 show ?thesis by simp
qed

theorem wordCount_tokens_witness:
  "wordCount \<lparr> fileName = ''cv.TXT'', documentType = ''resume'',
               extractedText = ''Senior engineer, 10 years'', wordCount = 4,
               parseSuccess = True, error = None \<rparr> =
     tokenCount False ''Senior engineer, 10 years'' \<and>
   wordCount \<lparr> fileName = ''notes.xyz'', documentType = ''other'', extractedText = [],
               wordCount = 0, parseSuccess = False,
               error = Some ''Unsupported file type: .xyz'' \<rparr> = 0 \<and>
   wordCount \<lparr> fileName = ''photo.PNG'', documentType = ''passport'',
               extractedText = ''[Image file - OCR not implemented]'', wordCount = 6,
               parseSuccess = False,
               error = Some ''Image file requires OCR for text extraction'' \<rparr> = 6"
proof -
  have text_file: "parseDocument textFiles ''/uploads/4'' ''cv.TXT'' ''resume'' =
      Inr \<lparr> fileName = ''cv.TXT'', documentType = ''resume'',
            extractedText = ''Senior engineer, 10 years'', wordCount = 4,
            parseSuccess = True, error = None \<rparr>"
    by code_simp
  have unknown_file: "parseDocument noFiles ''/uploads/2'' ''notes.xyz'' ''other'' =
      Inr \<lparr> fileName = ''notes.xyz'', documentType = ''other'', extractedText = [],
            wordCount = 0, parseSuccess = False,
            error = Some ''Unsupported file type: .xyz'' \<rparr>"
    by code_simp
  have image_file: "parseDocument noFiles ''/uploads/1'' ''photo.PNG'' ''passport'' =
      Inr \<lparr> fileName = ''photo.PNG'', documentType = ''passport'',
            extractedText = ''[Image file - OCR not implemented]'', wordCount = 6,
            parseSuccess = False,
            error = Some ''Image file requires OCR for text extraction'' \<rparr>"
    by code_simp
  show ?thesis
    using wordCount_tokens [OF text_file] wordCount_tokens [OF unknown_file]
      wordCount_tokens [OF image_file]
    by (simp add: ext_png ext_xyz)
qed

text \<open>
  An uploaded image: extraction fails (\<open>parseSuccess = false\<close>) and the word count is 6.
\<close>

theorem image_wordCount_counterexample:
  "parseDocument noFiles ''/uploads/1'' ''photo.PNG'' ''passport'' =
     Inr \<lparr> fileName = ''photo.PNG'', documentType = ''passport'',
           extractedText = ''[Image file - OCR not implemented]'', wordCount = 6,
           parseSuccess = False,
           error = Some ''Image file requires OCR for text extraction'' \<rparr>"
  by code_simp


end
